theory Spec2Isabelle
  imports Main
begin

section \<open>OAuth2 login and callback resources of fence (fence/blueprints/login/base.py)\<close>

text \<open>
  The module holds two request handlers, \<open>DefaultOAuth2Login.get\<close> and
  \<open>DefaultOAuth2Callback.get\<close>, the helper \<open>_login\<close> that both share,
  \<open>prepare_login_log\<close>, and \<open>DefaultOAuth2Callback.map_user_idp_info\<close>, which
  writes to the database. Python dictionaries are maps, \<open>None\<close> is \<open>None\<close> of an
  option type, an exception is the left summand of the result, and everything a handler
  mutates (the flask session, \<open>flask.g\<close>, the database session) is a record that the
  function takes and returns.
\<close>

subsection \<open>Values shared by all handlers\<close>

type_synonym dict = "string \<rightharpoonup> string"

text \<open>
  \<open>UserError\<close> is the exception the module raises itself (line 109), with the
  payload it is built from. \<open>IntegrityError\<close> is what a commit raises when the store
  refuses a row, \<open>AttributeError\<close> what reading a field of an unset \<open>flask.g.user\<close>
  raises, and \<open>Raised e\<close> an exception \<open>e\<close> that came out of a collaborator
  (\<open>validate_redirect\<close>, \<open>login_user\<close>, the OAuth2 client).
\<close>

datatype error = UserError dict | IntegrityError | AttributeError | Raised string

text \<open>Python's truth value of an optional string: \<open>None\<close> and \<open>""\<close> are false.\<close>

fun truthy :: "string option \<Rightarrow> bool" where
  "truthy None = False"
| "truthy (Some s) = (s \<noteq> [])"

text \<open>\<open>a or b\<close> on an optional string and a default.\<close>

fun or_else :: "string option \<Rightarrow> string \<Rightarrow> string" where
  "or_else None d = d"
| "or_else (Some s) d = (if s \<noteq> [] then s else d)"

record user =
  username :: string
  user_id :: nat
  additional_info :: "string \<rightharpoonup> (string \<times> string) list"

subsection \<open>The database session and \<open>map_user_idp_info\<close>\<close>

text \<open>
  The two tables the function touches. A row of \<open>IdentityProvider\<close> gets its \<open>id\<close>
  from the store when it is committed (\<open>next_id\<close>). The models themselves
  (fence.models) are not part of this module, so whether the store declares \<open>sub\<close>
  of \<open>IdPToUser\<close> unique is a field of the session, \<open>sub_unique\<close>: with it, a commit
  of a row whose \<open>sub\<close> is already there raises \<open>IntegrityError\<close> and stores nothing.
\<close>

record IdentityProvider =
  idp_id :: nat
  name :: string
  description :: "string option"

record IdPToUser =
  sub :: string
  fk_to_idp :: nat
  fk_to_User :: nat
  extra_info :: "dict option"

record db_session =
  identity_providers :: "IdentityProvider list"
  idp_to_users :: "IdPToUser list"
  next_id :: nat
  sub_unique :: bool

text \<open>
  \<open>current_session.add(idp); current_session.commit()\<close> for a new provider (lines
  137 and 138): the row is stored under a fresh id, and the object read back. The
  function reaches these lines only after its query found no row of that name, so within
  one session a uniqueness constraint on \<open>name\<close> has nothing to refuse.
\<close>

definition add_commit_idp ::
  "string \<Rightarrow> string option \<Rightarrow> db_session \<Rightarrow> IdentityProvider \<times> db_session" where
  "add_commit_idp n d s =
     (let row = \<lparr>idp_id = next_id s, name = n, description = d\<rparr>
      in (row, s\<lparr>identity_providers := identity_providers s @ [row],
                 next_id := Suc (next_id s)\<rparr>))"

text \<open>
  \<open>current_session.add(user_to_idp); current_session.commit()\<close> (lines 150 and 151).
  The function has no \<open>try\<close>, so the store's refusal leaves it as an exception.
\<close>

definition add_commit_idp_to_user ::
  "IdPToUser \<Rightarrow> db_session \<Rightarrow> (error + unit) \<times> db_session" where
  "add_commit_idp_to_user row s =
     (if sub_unique s \<and> sub row \<in> set (map sub (idp_to_users s))
      then (Inl IntegrityError, s)
      else (Inr (), s\<lparr>idp_to_users := idp_to_users s @ [row]\<rparr>))"

text \<open>
  \<open>current_session.query(IdentityProvider).filter(IdentityProvider.name == provider).first()\<close>
\<close>

definition query_idp_first :: "string \<Rightarrow> db_session \<Rightarrow> IdentityProvider option" where
  "query_idp_first provider s = find (\<lambda>r. name r = provider) (identity_providers s)"

text \<open>
  Lines 126 to 138: the provider is looked up by name and, when the query finds no row,
  created and committed. The result is the object \<open>idp\<close> and the session after it.
\<close>

definition get_or_create_idp :: "string \<Rightarrow> db_session \<Rightarrow> IdentityProvider \<times> db_session" where
  "get_or_create_idp provider s =
     (case query_idp_first provider s of
        Some r \<Rightarrow> (r, s)
      | None \<Rightarrow> add_commit_idp provider (Some ''IdP from foreign Passport'') s)"

definition map_user_idp_info ::
  "user \<Rightarrow> string \<Rightarrow> string \<Rightarrow> db_session \<Rightarrow> dict option \<Rightarrow> (error + unit) \<times> db_session" where
  "map_user_idp_info usr idp_sub provider current_session extra =
     (let (idp, s1) = get_or_create_idp provider current_session;
          idp_id' = idp_id idp;
          user_id' = user_id usr;
          user_to_idp = \<lparr>sub = provider @ ''_'' @ idp_sub,
                         fk_to_idp = idp_id',
                         fk_to_User = user_id',
                         extra_info = extra\<rparr>
      in add_commit_idp_to_user user_to_idp s1)"


subsection \<open>Requests, configuration and the flask context\<close>

text \<open>
  \<open>flask.request\<close>: \<open>args\<close> and \<open>cookies\<close> as \<open>.get\<close> reads them, and the
  full request URL.
\<close>

record request =
  args :: dict
  cookies :: dict
  url :: string

text \<open>
  The configuration, typed as its interface declares it: an entry of
  \<open>OPENID_CONNECT\<close> may hold a boolean \<open>mock\<close> and a string
  \<open>mock_default_user\<close>; \<open>top_level_flags\<close> are the boolean keys of the
  configuration itself, read by name (the legacy \<open>MOCK_<IDP>_AUTH\<close> keys live
  there). A key that is not set is \<open>None\<close>.
\<close>

record provider_config =
  mock :: "bool option"
  mock_default_user :: "string option"

record config =
  OPENID_CONNECT :: "string \<rightharpoonup> provider_config"
  top_level_flags :: "string \<rightharpoonup> bool"
  DEV_LOGIN_COOKIE_NAME :: "string option"
  REGISTER_USERS_ON :: bool
  BASE_URL :: string

record audit_data =
  audit_username :: string
  audit_sub :: nat
  audit_idp :: string
  audit_fence_idp :: "string option"
  audit_shib_idp :: "string option"
  audit_client_id :: "string option"

text \<open>
  What the handlers read and write outside their arguments: \<open>flask.session\<close>,
  \<open>flask.g.user\<close>, \<open>flask.g.audit_data\<close> and the attribute
  \<open>flask.redirect_url\<close> that line 28 sets.
\<close>

record flask_ctx =
  session :: dict
  g_user :: "user option"
  g_audit_data :: "audit_data option"
  redirect_url :: "string option"

datatype response = Redirect string | Jsonify "(string \<times> string) list"

text \<open>
  The OAuth2 client of a resource. Both calls may raise (the left summand names the
  exception) and may touch the flask context.
\<close>

record client =
  get_auth_url :: "flask_ctx \<Rightarrow> (string + string) \<times> flask_ctx"
  get_user_id :: "string option \<Rightarrow> flask_ctx \<Rightarrow> (string + dict) \<times> flask_ctx"

text \<open>
  What the module imports and calls but does not define: the configuration,
  \<open>validate_redirect\<close> (it returns, or raises the exception named),
  \<open>login_user\<close> (it raises, or returns having changed the flask context),
  \<open>flask.url_for\<close>, and from \<open>urllib.parse\<close> the query component
  \<open>urlparse(u).query\<close>, \<open>parse_qsl(q, keep_blank_values=True)\<close> and
  \<open>urlencode\<close>. They are parameters: every theorem below holds for all of them.
\<close>

record env =
  config :: config
  validate_redirect :: "flask_ctx \<Rightarrow> string option \<Rightarrow> string option"
  login_user :: "string \<Rightarrow> string \<Rightarrow> string option \<Rightarrow> flask_ctx \<Rightarrow> string option \<times> flask_ctx"
  url_for :: "string \<Rightarrow> string"
  urlparse_query :: "string \<Rightarrow> string"
  parse_qsl :: "string \<Rightarrow> (string \<times> string) list"
  urlencode :: "(string \<times> string) list \<Rightarrow> string"

subsection \<open>String helpers\<close>

definition ascii_uppercase :: string where
  "ascii_uppercase = ''ABCDEFGHIJKLMNOPQRSTUVWXYZ''"

definition ascii_lowercase :: string where
  "ascii_lowercase = ''abcdefghijklmnopqrstuvwxyz''"

text \<open>\<open>str.lower\<close> and \<open>str.upper\<close>, on ASCII text.\<close>

definition str_lower :: "string \<Rightarrow> string" where
  "str_lower s =
     map (\<lambda>c. case map_of (zip ascii_uppercase ascii_lowercase) c of
                 Some d \<Rightarrow> d | None \<Rightarrow> c) s"

definition str_upper :: "string \<Rightarrow> string" where
  "str_upper s =
     map (\<lambda>c. case map_of (zip ascii_lowercase ascii_uppercase) c of
                 Some d \<Rightarrow> d | None \<Rightarrow> c) s"

text \<open>\<open>s.split("?")[0]\<close>: the text before the first question mark.\<close>

definition split_first :: "string \<Rightarrow> string" where
  "split_first s = takeWhile (\<lambda>c. c \<noteq> CHR ''?'') s"

text \<open>
  \<open>dict(pairs).get(k)\<close>: building the dictionary lets a later pair overwrite an
  earlier one with the same key.
\<close>

definition dict_get :: "(string \<times> string) list \<Rightarrow> string \<Rightarrow> string option" where
  "dict_get pairs k = map_of (rev pairs) k"

subsection \<open>\<open>prepare_login_log\<close> and \<open>_login\<close>\<close>

definition prepare_login_log :: "string \<Rightarrow> flask_ctx \<Rightarrow> (error + unit) \<times> flask_ctx" where
  "prepare_login_log idp_name w =
     (case g_user w of
        None \<Rightarrow> (Inl AttributeError, w)
      | Some u \<Rightarrow>
          (Inr (), w\<lparr>g_audit_data := Some
             \<lparr>audit_username = username u,
              audit_sub = user_id u,
              audit_idp = idp_name,
              audit_fence_idp = session w ''fence_idp'',
              audit_shib_idp = session w ''shib_idp'',
              audit_client_id = session w ''client_id''\<rparr>\<rparr>))"

text \<open>
  \<open>_login(username, idp_name, email)\<close>. The registration check reads
  \<open>flask.g.user\<close> as \<open>login_user\<close> left it; \<open>registration_info\<close> counts as
  present when it is a non-empty dictionary.
\<close>

definition login ::
  "env \<Rightarrow> string \<Rightarrow> string \<Rightarrow> string option \<Rightarrow> flask_ctx \<Rightarrow> (error + response) \<times> flask_ctx" where
  "login e uname idp_name email w =
     (case login_user e uname idp_name email w of
        (Some exn, w') \<Rightarrow> (Inl (Raised exn), w')
      | (None, w') \<Rightarrow>
          (let saved =
                 (case session w' ''redirect'' of
                    None \<Rightarrow> Jsonify [(''username'', uname)]
                  | Some r \<Rightarrow> if r \<noteq> [] then Redirect r else Jsonify [(''username'', uname)])
           in if REGISTER_USERS_ON (config e)
              then (case g_user w' of
                      None \<Rightarrow> (Inl AttributeError, w')
                    | Some u \<Rightarrow>
                        (case additional_info u ''registration_info'' of
                           None \<Rightarrow>
                             (Inr (Redirect (BASE_URL (config e)
                                    @ url_for e ''register.register_user'')), w')
                         | Some info \<Rightarrow>
                             if info = []
                             then (Inr (Redirect (BASE_URL (config e)
                                    @ url_for e ''register.register_user'')), w')
                             else (Inr saved, w')))
              else (Inr saved, w')))"

subsection \<open>\<open>DefaultOAuth2Login.get\<close>\<close>

text \<open>The three configuration reads of lines 32 to 45.\<close>

definition mock_login :: "config \<Rightarrow> string \<Rightarrow> bool" where
  "mock_login cfg idp_name =
     (case OPENID_CONNECT cfg (str_lower idp_name) of
        None \<Rightarrow> False
      | Some p \<Rightarrow> (case mock p of None \<Rightarrow> False | Some b \<Rightarrow> b))"

definition legacy_mock_login :: "config \<Rightarrow> string \<Rightarrow> bool" where
  "legacy_mock_login cfg idp_name =
     (case top_level_flags cfg (''MOCK_'' @ str_upper idp_name @ ''_AUTH'') of
        None \<Rightarrow> False
      | Some b \<Rightarrow> b)"

definition default_mock_user :: "config \<Rightarrow> string \<Rightarrow> string" where
  "default_mock_user cfg idp_name =
     (case OPENID_CONNECT cfg (str_lower idp_name) of
        None \<Rightarrow> ''test@example.com''
      | Some p \<Rightarrow>
          (case mock_default_user p of None \<Rightarrow> ''test@example.com'' | Some u \<Rightarrow> u))"

text \<open>
  Lines 49 to 51: \<open>flask.request.cookies.get(config.get("DEV_LOGIN_COOKIE_NAME"),
  mock_default_user)\<close>. With no cookie name configured the key is \<open>None\<close>, which no
  cookie has.
\<close>

definition mock_username :: "config \<Rightarrow> request \<Rightarrow> string \<Rightarrow> string" where
  "mock_username cfg req idp_name =
     (case DEV_LOGIN_COOKIE_NAME cfg of
        None \<Rightarrow> default_mock_user cfg idp_name
      | Some cookie_name \<Rightarrow>
          (case cookies req cookie_name of
             None \<Rightarrow> default_mock_user cfg idp_name
           | Some v \<Rightarrow> v))"

text \<open>
  Lines 52 to 54: \<open>resp = _login(username, self.idp_name); prepare_login_log(self.idp_name);
  return resp\<close>. An exception of either call ends the handler.
\<close>

definition login_and_log ::
  "env \<Rightarrow> string \<Rightarrow> string \<Rightarrow> string option \<Rightarrow> flask_ctx \<Rightarrow> (error + response) \<times> flask_ctx" where
  "login_and_log e uname idp_name email w =
     (case login e uname idp_name email w of
        (Inl err, w') \<Rightarrow> (Inl err, w')
      | (Inr resp, w') \<Rightarrow>
          (case prepare_login_log idp_name w' of
             (Inl err, w'') \<Rightarrow> (Inl err, w'')
           | (Inr _, w'') \<Rightarrow> (Inr resp, w'')))"

text \<open>Lines 26 to 30: the state in which the rest of the handler runs.\<close>

definition save_redirect :: "string option \<Rightarrow> flask_ctx \<Rightarrow> flask_ctx" where
  "save_redirect r w =
     (let w1 = w\<lparr>redirect_url := r\<rparr>
      in case r of
           None \<Rightarrow> w1
         | Some u \<Rightarrow> if u \<noteq> [] then w1\<lparr>session := (session w1)(''redirect'' \<mapsto> u)\<rparr> else w1)"

definition DefaultOAuth2Login_get ::
  "env \<Rightarrow> string \<Rightarrow> client \<Rightarrow> request \<Rightarrow> flask_ctx \<Rightarrow> (error + response) \<times> flask_ctx" where
  "DefaultOAuth2Login_get e idp_name cl req w =
     (case validate_redirect e w (args req ''redirect'') of
        Some exn \<Rightarrow> (Inl (Raised exn), w)
      | None \<Rightarrow>
          (let w1 = save_redirect (args req ''redirect'') w
           in if mock_login (config e) idp_name \<or> legacy_mock_login (config e) idp_name
              then login_and_log e (mock_username (config e) req idp_name) idp_name None w1
              else (case get_auth_url cl w1 of
                      (Inl exn, w2) \<Rightarrow> (Inl (Raised exn), w2)
                    | (Inr u, w2) \<Rightarrow> (Inr (Redirect u), w2))))"

subsection \<open>\<open>DefaultOAuth2Callback.get\<close>\<close>

text \<open>
  \<open>post_login(flask.g.user, result)\<close> as the class defines it: the argument is
  read, then \<open>prepare_login_log\<close> runs.
\<close>

definition post_login :: "string \<Rightarrow> flask_ctx \<Rightarrow> (error + unit) \<times> flask_ctx" where
  "post_login idp_name w =
     (case g_user w of
        None \<Rightarrow> (Inl AttributeError, w)
      | Some _ \<Rightarrow> prepare_login_log idp_name w)"

definition DefaultOAuth2Callback_get ::
  "env \<Rightarrow> string \<Rightarrow> client \<Rightarrow> string \<Rightarrow> string \<Rightarrow> request \<Rightarrow> flask_ctx
     \<Rightarrow> (error + response) \<times> flask_ctx" where
  "DefaultOAuth2Callback_get e idp_name cl username_field email_field req w =
     (if truthy (args req ''error'')
      then
        (let request_url = url req;
             received_query_params = parse_qsl e (urlparse_query e request_url);
             redirect_uri = or_else (session w ''redirect'') (BASE_URL (config e));
             redirect_query_params = parse_qsl e (urlparse_query e redirect_uri);
             redirect_uri' =
               or_else (dict_get redirect_query_params ''redirect_uri'') redirect_uri;
             final_query_params = urlencode e (redirect_query_params @ received_query_params);
             final_redirect_url = split_first redirect_uri' @ ''?'' @ final_query_params
         in (Inr (Redirect final_redirect_url), w))
      else
        (case get_user_id cl (args req ''code'') w of
           (Inl exn, w1) \<Rightarrow> (Inl (Raised exn), w1)
         | (Inr result, w1) \<Rightarrow>
             (let uname = result username_field;
                  email = result email_field
              in case uname of
                   None \<Rightarrow> (Inl (UserError result), w1)
                 | Some u \<Rightarrow>
                     if u \<noteq> []
                     then (case login e u idp_name email w1 of
                             (Inl err, w2) \<Rightarrow> (Inl err, w2)
                           | (Inr resp, w2) \<Rightarrow>
                               (case post_login idp_name w2 of
                                  (Inl err, w3) \<Rightarrow> (Inl err, w3)
                                | (Inr _, w3) \<Rightarrow> (Inr resp, w3)))
                     else (Inl (UserError result), w1))))"

subsection \<open>An instance of the collaborators\<close>

text \<open>
  The theorems hold for every \<open>env\<close>. To run the handlers on concrete requests the
  three \<open>urllib.parse\<close> functions are given here as they behave on ASCII text
  without control characters: the query is what lies between the first \<open>?\<close> and
  the fragment; \<open>parse_qsl\<close> splits at \<open>&\<close>, drops empty fields, splits each
  field at its first \<open>=\<close> and decodes \<open>+\<close> and \<open>%XX\<close>, leaving a malformed
  escape as it is; \<open>urlencode\<close> joins the pairs after \<open>quote_plus\<close>.
\<close>

definition ascii_query :: "string \<Rightarrow> string" where
  "ascii_query u =
     drop 1 (dropWhile (\<lambda>c. c \<noteq> CHR ''?'') (takeWhile (\<lambda>c. c \<noteq> CHR ''#'') u))"

fun split_on :: "char \<Rightarrow> string \<Rightarrow> string list" where
  "split_on c [] = [[]]"
| "split_on c (x # xs) =
     (if x = c then [] # split_on c xs
      else (case split_on c xs of [] \<Rightarrow> [[x]] | p # ps \<Rightarrow> (x # p) # ps))"

definition hex_value :: "char \<Rightarrow> nat option" where
  "hex_value c = map_of (zip ''0123456789abcdef'' [0 ..< 16] @ zip ''ABCDEF'' [10 ..< 16]) c"

fun unquote :: "string \<Rightarrow> string" where
  "unquote (c # h # l # rest) =
     (if c = CHR ''%''
      then (case (hex_value h, hex_value l) of
              (Some a, Some b) \<Rightarrow> char_of (16 * a + b) # unquote rest
            | _ \<Rightarrow> c # unquote (h # l # rest))
      else c # unquote (h # l # rest))"
| "unquote s = s"

definition unquote_plus :: "string \<Rightarrow> string" where
  "unquote_plus s = unquote (map (\<lambda>c. if c = CHR ''+'' then CHR '' '' else c) s)"

definition ascii_parse_qsl :: "string \<Rightarrow> (string \<times> string) list" where
  "ascii_parse_qsl qs =
     map (\<lambda>nv. (unquote_plus (takeWhile (\<lambda>c. c \<noteq> CHR ''='') nv),
                 unquote_plus (drop 1 (dropWhile (\<lambda>c. c \<noteq> CHR ''='') nv))))
       (filter (\<lambda>nv. nv \<noteq> []) (split_on CHR ''&'' qs))"

definition always_safe :: string where
  "always_safe = ''ABCDEFGHIJKLMNOPQRSTUVWXYZabcdefghijklmnopqrstuvwxyz0123456789_.-~''"

definition quote_plus :: "string \<Rightarrow> string" where
  "quote_plus s =
     concat (map (\<lambda>c. if c \<in> set always_safe then [c]
                       else if c = CHR '' '' then ''+''
                       else [CHR ''%'', ''0123456789ABCDEF'' ! (of_char c div 16),
                                        ''0123456789ABCDEF'' ! (of_char c mod 16)]) s)"

fun join_amp :: "string list \<Rightarrow> string" where
  "join_amp [] = []"
| "join_amp [x] = x"
| "join_amp (x # y # ys) = x @ ''&'' @ join_amp (y # ys)"

definition ascii_urlencode :: "(string \<times> string) list \<Rightarrow> string" where
  "ascii_urlencode pairs =
     join_amp (map (\<lambda>(k, v). quote_plus k @ ''='' @ quote_plus v) pairs)"

text \<open>
  A deployment to evaluate on: one provider in mock mode, a redirect check that admits
  the pages of one application, and a \<open>login_user\<close> that finds a user without
  registration data.
\<close>

definition demo_config :: config where
  "demo_config =
     \<lparr>OPENID_CONNECT =
        [''google'' \<mapsto> \<lparr>mock = Some True, mock_default_user = Some ''a@x.com''\<rparr>],
      top_level_flags = Map.empty,
      DEV_LOGIN_COOKIE_NAME = Some ''dev_login'',
      REGISTER_USERS_ON = False,
      BASE_URL = ''https://fence.example''\<rparr>"

definition demo_env :: "config \<Rightarrow> env" where
  "demo_env cfg =
     \<lparr>config = cfg,
      validate_redirect =
        (\<lambda>w r. case r of
                  None \<Rightarrow> None
                | Some u \<Rightarrow>
                    if u = [] \<or> take 20 u = ''https://app.example/'' then None
                    else Some ''invalid redirect''),
      login_user =
        (\<lambda>u idp email w.
           (None, w\<lparr>g_user := Some \<lparr>username = u, user_id = 1,
                                     additional_info = Map.empty\<rparr>\<rparr>)),
      url_for = (\<lambda>endpoint. ''/user/register''),
      urlparse_query = ascii_query,
      parse_qsl = ascii_parse_qsl,
      urlencode = ascii_urlencode\<rparr>"

definition demo_client :: "dict \<Rightarrow> client" where
  "demo_client payload =
     \<lparr>get_auth_url = (\<lambda>w. (Inr ''https://idp.example/authorize'', w)),
      get_user_id = (\<lambda>code w. (Inr payload, w))\<rparr>"

definition demo_ctx :: flask_ctx where
  "demo_ctx = \<lparr>session = Map.empty, g_user = None, g_audit_data = None, redirect_url = None\<rparr>"

definition demo_user :: user where
  "demo_user = \<lparr>username = ''u@x.com'', user_id = 7, additional_info = Map.empty\<rparr>"

definition demo_db :: "bool \<Rightarrow> db_session" where
  "demo_db uniq =
     \<lparr>identity_providers = [], idp_to_users = [], next_id = 0, sub_unique = uniq\<rparr>"

section \<open>Properties of \<open>map_user_idp_info\<close>\<close>

lemma query_idp_first_Some:
  "query_idp_first p s = Some r \<Longrightarrow> r \<in> set (identity_providers s) \<and> name r = p"
  by (auto simp: query_idp_first_def find_Some_iff)

lemma sub_unique_add_commit_idp [simp]:
  "sub_unique (snd (add_commit_idp n d s)) = sub_unique s"
  by (simp add: add_commit_idp_def Let_def)

lemma idp_to_users_add_commit_idp [simp]:
  "idp_to_users (snd (add_commit_idp n d s)) = idp_to_users s"
  by (simp add: add_commit_idp_def Let_def)

lemma map_user_idp_info_unfold:
  "map_user_idp_info usr idp_sub provider s extra =
     add_commit_idp_to_user
       \<lparr>sub = provider @ ''_'' @ idp_sub,
        fk_to_idp = idp_id (fst (get_or_create_idp provider s)),
        fk_to_User = user_id usr, extra_info = extra\<rparr>
       (snd (get_or_create_idp provider s))"
  by (simp add: map_user_idp_info_def Let_def split: prod.splits)

lemma get_or_create_idp_sub_unique [simp]:
  "sub_unique (snd (get_or_create_idp provider s)) = sub_unique s"
  by (simp add: get_or_create_idp_def split: option.splits)

lemma get_or_create_idp_idp_to_users [simp]:
  "idp_to_users (snd (get_or_create_idp provider s)) = idp_to_users s"
  by (simp add: get_or_create_idp_def split: option.splits)

lemma get_or_create_idp_providers:
  "identity_providers (snd (get_or_create_idp provider s)) =
     (case query_idp_first provider s of
        Some r \<Rightarrow> identity_providers s
      | None \<Rightarrow> identity_providers s @
          [\<lparr>idp_id = next_id s, name = provider,
            description = Some ''IdP from foreign Passport''\<rparr>])"
  by (simp add: get_or_create_idp_def add_commit_idp_def Let_def split: option.splits)

lemma get_or_create_idp_row:
  "fst (get_or_create_idp provider s) \<in> set (identity_providers (snd (get_or_create_idp provider s)))
     \<and> name (fst (get_or_create_idp provider s)) = provider"
  by (auto simp: get_or_create_idp_def add_commit_idp_def Let_def
      dest: query_idp_first_Some split: option.splits)

lemma map_user_sub_unique [simp]:
  "sub_unique (snd (map_user_idp_info usr idp_sub provider s extra)) = sub_unique s"
  by (simp add: map_user_idp_info_unfold add_commit_idp_to_user_def)


lemma map_user_result:
  "fst (map_user_idp_info usr idp_sub provider s extra) =
     (if sub_unique s \<and> provider @ ''_'' @ idp_sub \<in> set (map sub (idp_to_users s))
      then Inl IntegrityError else Inr ())"
  by (simp add: map_user_idp_info_unfold add_commit_idp_to_user_def)

lemma map_user_providers:
  "identity_providers (snd (map_user_idp_info usr idp_sub provider s extra)) =
     identity_providers (snd (get_or_create_idp provider s))"
  by (simp add: map_user_idp_info_unfold add_commit_idp_to_user_def)




text \<open>
  C8. Whatever the store held, after \<open>map_user_idp_info\<close> a row of
  \<open>IdentityProvider\<close> with the given name is there, also when the commit of the
  binding is refused. If the lookup found none, the table has grown by exactly one row,
  with the description \<open>IdP from foreign Passport\<close>; if it found one, the table is
  unchanged. The binding is added to a session that already holds the provider's row,
  and points to it. Whether the call succeeds depends on the binding's \<open>sub\<close> alone,
  never on whether the provider was known.
\<close>

theorem identity_provider_auto_registration:
  "let (r, s') = map_user_idp_info usr idp_sub provider s extra
   in (\<exists>row \<in> set (identity_providers s'). name row = provider)
    \<and> (query_idp_first provider s = None \<longrightarrow>
          identity_providers s' = identity_providers s @
            [\<lparr>idp_id = next_id s, name = provider,
              description = Some ''IdP from foreign Passport''\<rparr>])
    \<and> (query_idp_first provider s \<noteq> None \<longrightarrow> identity_providers s' = identity_providers s)
    \<and> (\<exists>s1 row. (\<exists>p \<in> set (identity_providers s1). name p = provider \<and> fk_to_idp row = idp_id p)
          \<and> sub row = provider @ ''_'' @ idp_sub
          \<and> map_user_idp_info usr idp_sub provider s extra = add_commit_idp_to_user row s1)
    \<and> (r = Inr () \<longleftrightarrow>
          \<not> (sub_unique s \<and> provider @ ''_'' @ idp_sub \<in> set (map sub (idp_to_users s))))"
proof -
  define s' where "s' = snd (map_user_idp_info usr idp_sub provider s extra)"
  define r where "r = fst (map_user_idp_info usr idp_sub provider s extra)"
  define row where "row = \<lparr>sub = provider @ ''_'' @ idp_sub,
        fk_to_idp = idp_id (fst (get_or_create_idp provider s)),
        fk_to_User = user_id usr, extra_info = extra\<rparr>"
  have A: "\<exists>x \<in> set (identity_providers s'). name x = provider"
    unfolding s'_def using get_or_create_idp_row [of provider s]
    by (auto simp: map_user_providers)
  have B: "query_idp_first provider s = None \<Longrightarrow>
      identity_providers s' = identity_providers s @
        [\<lparr>idp_id = next_id s, name = provider,
          description = Some ''IdP from foreign Passport''\<rparr>]"
    unfolding s'_def by (simp add: map_user_providers get_or_create_idp_providers)
  have C: "query_idp_first provider s \<noteq> None \<Longrightarrow> identity_providers s' = identity_providers s"
    unfolding s'_def by (auto simp: map_user_providers get_or_create_idp_providers)
  have "(\<exists>p \<in> set (identity_providers (snd (get_or_create_idp provider s))).
            name p = provider \<and> fk_to_idp row = idp_id p)
      \<and> sub row = provider @ ''_'' @ idp_sub
      \<and> map_user_idp_info usr idp_sub provider s extra
          = add_commit_idp_to_user row (snd (get_or_create_idp provider s))"
    using get_or_create_idp_row [of provider s]
    by (auto simp: row_def map_user_idp_info_unfold)
  then have D: "\<exists>s1 row. (\<exists>p \<in> set (identity_providers s1).
            name p = provider \<and> fk_to_idp row = idp_id p)
      \<and> sub row = provider @ ''_'' @ idp_sub
      \<and> map_user_idp_info usr idp_sub provider s extra = add_commit_idp_to_user row s1"
    by blast
  have E: "r = Inr () \<longleftrightarrow>
      \<not> (sub_unique s \<and> provider @ ''_'' @ idp_sub \<in> set (map sub (idp_to_users s)))"
    unfolding r_def by (simp add: map_user_result)
  from A B C D E show ?thesis
    unfolding s'_def r_def by (simp add: split_beta)
qed

theorem identity_provider_auto_registration_witness:
  "query_idp_first ''ras'' (demo_db True) = None
   \<and> map_user_idp_info demo_user ''abc'' ''ras'' (demo_db True) None =
       (Inr (),
        \<lparr>identity_providers =
           [\<lparr>idp_id = 0, name = ''ras'', description = Some ''IdP from foreign Passport''\<rparr>],
         idp_to_users =
           [\<lparr>sub = ''ras_abc'', fk_to_idp = 0, fk_to_User = 7, extra_info = None\<rparr>],
         next_id = 1, sub_unique = True\<rparr>)"
  using identity_provider_auto_registration [of demo_user "''abc''" "''ras''" "demo_db True" None]
  by (simp add: map_user_idp_info_def get_or_create_idp_def query_idp_first_def
      add_commit_idp_def add_commit_idp_to_user_def demo_db_def demo_user_def Let_def)




section \<open>Properties of the request handlers\<close>

lemma post_login_eq: "post_login idp w = prepare_login_log idp w"
  by (simp add: post_login_def prepare_login_log_def split: option.splits)

lemma login_not_UserError: "fst (login e u idp email w) \<noteq> Inl (UserError p)"
  by (simp add: login_def Let_def split: prod.splits option.splits)

lemma prepare_login_log_not_UserError: "fst (prepare_login_log idp w) \<noteq> Inl (UserError p)"
  by (simp add: prepare_login_log_def split: option.splits)

lemma login_and_log_not_UserError: "fst (login_and_log e u idp email w) \<noteq> Inl (UserError p)"
  using login_not_UserError [of e u idp email w p]
  by (auto simp: login_and_log_def prepare_login_log_def split: prod.splits sum.splits option.splits)

lemma login_and_log_neq_UserError:
  "login_and_log e u idp email w \<noteq> (Inl (UserError p), w')"
  using login_and_log_not_UserError [of e u idp email w p] by auto

lemma callback_success_branch:
  assumes "\<not> truthy (args req ''error'')"
  shows "DefaultOAuth2Callback_get e idp cl uf ef req w =
     (case get_user_id cl (args req ''code'') w of
        (Inl exn, w1) \<Rightarrow> (Inl (Raised exn), w1)
      | (Inr result, w1) \<Rightarrow>
          if truthy (result uf)
          then login_and_log e (or_else (result uf) []) idp (result ef) w1
          else (Inl (UserError result), w1))"
  using assms
  by (auto simp: DefaultOAuth2Callback_get_def Let_def login_and_log_def post_login_eq
      split: prod.splits sum.splits option.splits)



text \<open>
  C3. Without an error argument, the handler raises \<open>UserError\<close> exactly when the
  exchange returned a payload in which the username field is missing or empty. The
  exception then carries that payload, the context is the one the exchange left, and
  \<open>login_user\<close> plays no part in the outcome: it is not called.
\<close>

theorem callback_missing_username_raises:
  assumes "\<not> truthy (args req ''error'')"
  shows "(\<forall>p w'. DefaultOAuth2Callback_get e idp cl uf ef req w = (Inl (UserError p), w')
             \<longleftrightarrow> get_user_id cl (args req ''code'') w = (Inr p, w') \<and> \<not> truthy (p uf))
       \<and> (\<forall>p w'. get_user_id cl (args req ''code'') w = (Inr p, w') \<and> \<not> truthy (p uf)
            \<longrightarrow> (\<forall>f. DefaultOAuth2Callback_get (e\<lparr>login_user := f\<rparr>) idp cl uf ef req w
                       = (Inl (UserError p), w')))"
proof -
  obtain r wa where g: "get_user_id cl (args req ''code'') w = (r, wa)" by fastforce
  show ?thesis
  proof (cases r)
    case (Inl exn)
    with g assms show ?thesis by (simp add: callback_success_branch)
  next
    case (Inr result)
    show ?thesis
    proof (cases "truthy (result uf)")
      case True
      with g Inr assms show ?thesis
        by (auto simp: callback_success_branch login_and_log_neq_UserError)
    next
      case False
      with g Inr assms show ?thesis by (auto simp: callback_success_branch)
    qed
  qed
qed

theorem callback_missing_username_raises_witness:
  "\<not> truthy (args \<lparr>args = [''code'' \<mapsto> ''c0de''], cookies = Map.empty,
                  url = ''https://fence.example/login/google/callback?code=c0de''\<rparr> ''error'')
   \<and> DefaultOAuth2Callback_get (demo_env demo_config) ''google'' (demo_client Map.empty)
         ''email'' ''email''
         \<lparr>args = [''code'' \<mapsto> ''c0de''], cookies = Map.empty,
          url = ''https://fence.example/login/google/callback?code=c0de''\<rparr> demo_ctx
       = (Inl (UserError Map.empty), demo_ctx)
   \<and> fst (DefaultOAuth2Callback_get (demo_env demo_config) ''google''
         (demo_client [''email'' \<mapsto> ''u@x.com''])
         ''email'' ''email''
         \<lparr>args = [''code'' \<mapsto> ''c0de''], cookies = Map.empty,
          url = ''https://fence.example/login/google/callback?code=c0de''\<rparr> demo_ctx)
       = Inr (Jsonify [(''username'', ''u@x.com'')])"
  using callback_missing_username_raises
    [where req = "\<lparr>args = [''code'' \<mapsto> ''c0de''], cookies = Map.empty,
          url = ''https://fence.example/login/google/callback?code=c0de''\<rparr>"
       and e = "demo_env demo_config" and idp = "''google''" and cl = "demo_client Map.empty"
       and uf = "''email''" and ef = "''email''" and w = demo_ctx]
  by (simp add: demo_env_def demo_config_def demo_client_def demo_ctx_def
      DefaultOAuth2Callback_get_def login_def prepare_login_log_def post_login_def Let_def)

text \<open>
  C4. Once \<open>login_user\<close> has returned and set the user, \<open>_login\<close> answers in this
  order: with registration required and no registration data on the user, a redirect to
  the registration endpoint, whatever the session holds; else a redirect to the redirect
  saved in the session, if there is one; else the JSON body with the username alone.
\<close>

theorem login_response_priority:
  assumes "login_user e u idp email w = (None, w')" and "g_user w' = Some usr"
  shows "login e u idp email w =
     (Inr (if REGISTER_USERS_ON (config e)
              \<and> (additional_info usr ''registration_info'' = None
                 \<or> additional_info usr ''registration_info'' = Some [])
           then Redirect (BASE_URL (config e) @ url_for e ''register.register_user'')
           else (case session w' ''redirect'' of
                   None \<Rightarrow> Jsonify [(''username'', u)]
                 | Some r \<Rightarrow> if r \<noteq> [] then Redirect r else Jsonify [(''username'', u)])), w')"
  using assms by (auto simp: login_def Let_def split: option.splits)

theorem login_response_priority_witness:
  "login_user (demo_env (demo_config\<lparr>REGISTER_USERS_ON := True\<rparr>)) ''u@x.com'' ''google'' None
       (demo_ctx\<lparr>session := [''redirect'' \<mapsto> ''https://app.example/home'']\<rparr>)
     = (None, \<lparr>session = [''redirect'' \<mapsto> ''https://app.example/home''],
               g_user = Some \<lparr>username = ''u@x.com'', user_id = 1, additional_info = Map.empty\<rparr>,
               g_audit_data = None, redirect_url = None\<rparr>)
   \<and> login (demo_env (demo_config\<lparr>REGISTER_USERS_ON := True\<rparr>)) ''u@x.com'' ''google'' None
       (demo_ctx\<lparr>session := [''redirect'' \<mapsto> ''https://app.example/home'']\<rparr>)
     = (Inr (Redirect ''https://fence.example/user/register''),
        \<lparr>session = [''redirect'' \<mapsto> ''https://app.example/home''],
         g_user = Some \<lparr>username = ''u@x.com'', user_id = 1, additional_info = Map.empty\<rparr>,
         g_audit_data = None, redirect_url = None\<rparr>)
   \<and> fst (login (demo_env demo_config) ''u@x.com'' ''google'' None
       (demo_ctx\<lparr>session := [''redirect'' \<mapsto> ''https://app.example/home'']\<rparr>))
     = Inr (Redirect ''https://app.example/home'')
   \<and> fst (login (demo_env demo_config) ''u@x.com'' ''google'' None demo_ctx)
     = Inr (Jsonify [(''username'', ''u@x.com'')])"
  using login_response_priority
    [where e = "demo_env (demo_config\<lparr>REGISTER_USERS_ON := True\<rparr>)" and u = "''u@x.com''"
       and idp = "''google''" and email = None
       and w = "demo_ctx\<lparr>session := [''redirect'' \<mapsto> ''https://app.example/home'']\<rparr>"
       and w' = "\<lparr>session = [''redirect'' \<mapsto> ''https://app.example/home''],
               g_user = Some \<lparr>username = ''u@x.com'', user_id = 1, additional_info = Map.empty\<rparr>,
               g_audit_data = None, redirect_url = None\<rparr>"
       and usr = "\<lparr>username = ''u@x.com'', user_id = 1, additional_info = Map.empty\<rparr>"]
  by (simp add: demo_env_def demo_config_def demo_client_def demo_ctx_def login_def Let_def)

text \<open>
  C5. In mock mode the login handler, once the redirect is validated, returns what
  \<open>_login\<close> followed by \<open>prepare_login_log\<close> returns for the mock username. The
  client does not enter the result: any other client gives the same response and the
  same context.
\<close>

theorem mock_login_skips_client:
  assumes "mock_login (config e) idp \<or> legacy_mock_login (config e) idp"
  shows "DefaultOAuth2Login_get e idp cl req w =
           (case validate_redirect e w (args req ''redirect'') of
              Some exn \<Rightarrow> (Inl (Raised exn), w)
            | None \<Rightarrow> login_and_log e (mock_username (config e) req idp) idp None
                        (save_redirect (args req ''redirect'') w))
         \<and> (\<forall>cl'. DefaultOAuth2Login_get e idp cl' req w = DefaultOAuth2Login_get e idp cl req w)"
  using assms by (auto simp: DefaultOAuth2Login_get_def Let_def split: option.splits)

theorem mock_login_skips_client_witness:
  "(mock_login (config (demo_env demo_config)) ''Google''
      \<or> legacy_mock_login (config (demo_env demo_config)) ''Google'')
   \<and> DefaultOAuth2Login_get (demo_env demo_config) ''Google'' (demo_client Map.empty)
        \<lparr>args = [''redirect'' \<mapsto> ''https://app.example/home''], cookies = Map.empty,
         url = ''https://fence.example/login/google?redirect=https://app.example/home''\<rparr>
        demo_ctx
      = (Inr (Redirect ''https://app.example/home''),
         \<lparr>session = [''redirect'' \<mapsto> ''https://app.example/home''],
          g_user = Some \<lparr>username = ''a@x.com'', user_id = 1, additional_info = Map.empty\<rparr>,
          g_audit_data = Some \<lparr>audit_username = ''a@x.com'', audit_sub = 1,
            audit_idp = ''Google'', audit_fence_idp = None, audit_shib_idp = None,
            audit_client_id = None\<rparr>,
          redirect_url = Some ''https://app.example/home''\<rparr>)"
  using mock_login_skips_client
    [where e = "demo_env demo_config" and idp = "''Google''" and cl = "demo_client Map.empty"
       and req = "\<lparr>args = [''redirect'' \<mapsto> ''https://app.example/home''], cookies = Map.empty,
         url = ''https://fence.example/login/google?redirect=https://app.example/home''\<rparr>"
       and w = demo_ctx]
  by (simp add: demo_env_def demo_config_def demo_client_def demo_ctx_def
      DefaultOAuth2Login_get_def login_and_log_def login_def prepare_login_log_def
      save_redirect_def mock_login_def legacy_mock_login_def default_mock_user_def
      mock_username_def str_lower_def str_upper_def ascii_uppercase_def ascii_lowercase_def
      Let_def)



text \<open>
  C7. The redirect is validated in the context the request arrived in. When the
  validation raises, the handler raises the same exception and the context is untouched:
  the session keeps the redirect it had, and there is no response.
\<close>

theorem invalid_redirect_keeps_session:
  assumes "validate_redirect e w (args req ''redirect'') = Some exn"
  shows "DefaultOAuth2Login_get e idp cl req w = (Inl (Raised exn), w)"
  using assms by (simp add: DefaultOAuth2Login_get_def)

theorem invalid_redirect_keeps_session_witness:
  "validate_redirect (demo_env demo_config) demo_ctx
      (args \<lparr>args = [''redirect'' \<mapsto> ''https://evil.example/''], cookies = Map.empty,
             url = ''https://fence.example/login/google?redirect=https://evil.example/''\<rparr>
         ''redirect'') = Some ''invalid redirect''
   \<and> DefaultOAuth2Login_get (demo_env demo_config) ''google'' (demo_client Map.empty)
        \<lparr>args = [''redirect'' \<mapsto> ''https://evil.example/''], cookies = Map.empty,
         url = ''https://fence.example/login/google?redirect=https://evil.example/''\<rparr> demo_ctx
      = (Inl (Raised ''invalid redirect''), demo_ctx)"
  using invalid_redirect_keeps_session
    [where e = "demo_env demo_config" and idp = "''google''" and cl = "demo_client Map.empty"
       and req = "\<lparr>args = [''redirect'' \<mapsto> ''https://evil.example/''], cookies = Map.empty,
         url = ''https://fence.example/login/google?redirect=https://evil.example/''\<rparr>"
       and w = demo_ctx and exn = "''invalid redirect''"]
  by (simp add: demo_env_def demo_config_def demo_client_def demo_ctx_def)



text \<open>
  C10. In mock mode, with no \<open>mock_default_user\<close> configured for the provider and no
  development cookie in the request, the user logged in is \<open>test@example.com\<close>.
\<close>

theorem mock_default_hardcoded:
  assumes "validate_redirect e w (args req ''redirect'') = None"
    and "mock_login (config e) idp \<or> legacy_mock_login (config e) idp"
    and "\<forall>p. OPENID_CONNECT (config e) (str_lower idp) = Some p \<longrightarrow> mock_default_user p = None"
    and "\<forall>n. DEV_LOGIN_COOKIE_NAME (config e) = Some n \<longrightarrow> cookies req n = None"
  shows "DefaultOAuth2Login_get e idp cl req w =
           login_and_log e ''test@example.com'' idp None (save_redirect (args req ''redirect'') w)"
  using assms
  by (auto simp: DefaultOAuth2Login_get_def Let_def mock_username_def default_mock_user_def
      split: option.splits)

theorem mock_default_hardcoded_witness:
  "mock_login
      (demo_config\<lparr>OPENID_CONNECT :=
         [''google'' \<mapsto> \<lparr>mock = Some True, mock_default_user = None\<rparr>]\<rparr>) ''google''
   \<and> cookies \<lparr>args = Map.empty, cookies = Map.empty,
                url = ''https://fence.example/login/google''\<rparr> ''dev_login'' = None
   \<and> fst (DefaultOAuth2Login_get
        (demo_env (demo_config\<lparr>OPENID_CONNECT :=
           [''google'' \<mapsto> \<lparr>mock = Some True, mock_default_user = None\<rparr>]\<rparr>))
        ''google'' (demo_client Map.empty)
        \<lparr>args = Map.empty, cookies = Map.empty, url = ''https://fence.example/login/google''\<rparr>
        demo_ctx)
      = Inr (Jsonify [(''username'', ''test@example.com'')])
   \<and> fst (DefaultOAuth2Login_get
        (demo_env (demo_config\<lparr>OPENID_CONNECT := Map.empty,
                                top_level_flags := [''MOCK_GOOGLE_AUTH'' \<mapsto> True],
                                DEV_LOGIN_COOKIE_NAME := None\<rparr>))
        ''google'' (demo_client Map.empty)
        \<lparr>args = Map.empty, cookies = Map.empty, url = ''https://fence.example/login/google''\<rparr>
        demo_ctx)
      = Inr (Jsonify [(''username'', ''test@example.com'')])"
  using mock_default_hardcoded
    [where e = "demo_env (demo_config\<lparr>OPENID_CONNECT :=
           [''google'' \<mapsto> \<lparr>mock = Some True, mock_default_user = None\<rparr>]\<rparr>)"
       and idp = "''google''" and cl = "demo_client Map.empty"
       and req = "\<lparr>args = Map.empty, cookies = Map.empty,
                   url = ''https://fence.example/login/google''\<rparr>"
       and w = demo_ctx]
  by (simp add: demo_env_def demo_config_def demo_client_def demo_ctx_def
      DefaultOAuth2Login_get_def login_and_log_def login_def prepare_login_log_def
      save_redirect_def mock_login_def legacy_mock_login_def default_mock_user_def
      mock_username_def str_lower_def str_upper_def ascii_uppercase_def ascii_lowercase_def
      Let_def)

end
